theory Spec2Isabelle
  imports Complex_Main
begin

section \<open>Python values and errors\<close>

text \<open>
  Every exception the modelled code can raise is a value of \<open>py_error\<close>; a function that
  may raise returns \<open>py_error + 'a\<close> with \<open>Inl\<close> for the raised exception.
  Python integers are unbounded, so they are \<open>int\<close>; \<open>//\<close> is floor division, which is
  \<open>div\<close> on \<open>int\<close>, except that a zero divisor raises.
\<close>

datatype py_error =
    ZeroDivisionError
  | ValueError string
  | OSError string
  | ApiError string

definition py_floordiv :: "int \<Rightarrow> int \<Rightarrow> py_error + int" where
  "py_floordiv a b = (if b = 0 then Inl ZeroDivisionError else Inr (a div b))"

text \<open>\<open>range(n)\<close>: the integers \<open>0, ..., n - 1\<close>, empty when \<open>n \<le> 0\<close>.\<close>

definition py_range :: "int \<Rightarrow> int list" where
  "py_range n = map int [0..<nat n]"

section \<open>Layout: \<open>src/tools/layout_tools.py\<close>\<close>

subsection \<open>Data\<close>

record LayoutConfig =
  page_width :: int
  page_height :: int
  margin :: int
  gutter :: int
  background_color :: string

text \<open>The defaults of the class \<open>LayoutConfig\<close>.\<close>

definition default_config :: LayoutConfig where
  "default_config =
     \<lparr>page_width = 1200, page_height = 1600, margin = 50, gutter = 20,
      background_color = ''white''\<rparr>"

text \<open>
  \<open>PanelPosition\<close> has the fields \<open>x\<close>, \<open>y\<close>, \<open>width\<close>, \<open>height\<close>; they carry the prefix
  \<open>pos_\<close> here so that \<open>x\<close> and \<open>y\<close> stay free for variables.
\<close>

record PanelPosition =
  pos_x :: int
  pos_y :: int
  pos_width :: int
  pos_height :: int

subsection \<open>\<open>ComicLayoutTool._grid_layout\<close>\<close>

text \<open>\<open>cols = 2 if num_panels > 1 else 1\<close>\<close>

definition grid_cols :: "int \<Rightarrow> int" where
  "grid_cols num_panels = (if num_panels > 1 then 2 else 1)"

text \<open>\<open>rows = (num_panels + cols - 1) // cols\<close>; \<open>cols\<close> is never zero.\<close>

definition grid_rows :: "int \<Rightarrow> int" where
  "grid_rows num_panels = (num_panels + grid_cols num_panels - 1) div grid_cols num_panels"

definition grid_layout :: "int \<Rightarrow> LayoutConfig \<Rightarrow> py_error + PanelPosition list" where
  "grid_layout num_panels config =
     (let cols = grid_cols num_panels;
          rows = grid_rows num_panels;
          available_width = page_width config - (2 * margin config) - ((cols - 1) * gutter config);
          available_height = page_height config - (2 * margin config) - ((rows - 1) * gutter config)
      in case py_floordiv available_width cols of
           Inl e \<Rightarrow> Inl e
         | Inr panel_width \<Rightarrow>
             (case py_floordiv available_height rows of
                Inl e \<Rightarrow> Inl e
              | Inr panel_height \<Rightarrow>
                  Inr (map (\<lambda>i.
                         let row = i div cols;
                             col = i mod cols
                         in \<lparr>pos_x = margin config + col * (panel_width + gutter config),
                             pos_y = margin config + row * (panel_height + gutter config),
                             pos_width = panel_width,
                             pos_height = panel_height\<rparr>)
                       (py_range num_panels))))"

subsection \<open>The layout policies\<close>

definition dynamic_layout :: "int \<Rightarrow> LayoutConfig \<Rightarrow> py_error + PanelPosition list" where
  "dynamic_layout num_panels config = grid_layout num_panels config"

definition traditional_layout :: "int \<Rightarrow> LayoutConfig \<Rightarrow> py_error + PanelPosition list" where
  "traditional_layout num_panels config = grid_layout num_panels config"

definition calculate_positions ::
  "int \<Rightarrow> string \<Rightarrow> LayoutConfig \<Rightarrow> py_error + PanelPosition list" where
  "calculate_positions num_panels layout_style config =
     (if layout_style = ''grid'' then grid_layout num_panels config
      else if layout_style = ''dynamic'' then dynamic_layout num_panels config
      else if layout_style = ''traditional'' then traditional_layout num_panels config
      else grid_layout num_panels config)"

subsection \<open>Geometry of the claims\<close>

text \<open>
  A rectangle lies in the page interior when it starts at or after the margin and ends at
  or before the page size minus the margin, in both directions, and has no negative
  coordinate.
\<close>

definition within_interior :: "LayoutConfig \<Rightarrow> PanelPosition \<Rightarrow> bool" where
  "within_interior config p =
     (margin config \<le> pos_x p \<and> margin config \<le> pos_y p \<and>
      pos_x p + pos_width p \<le> page_width config - margin config \<and>
      pos_y p + pos_height p \<le> page_height config - margin config \<and>
      0 \<le> pos_x p \<and> 0 \<le> pos_y p)"

text \<open>Two rectangles overlap when their extents intersect in both directions.\<close>

definition overlap :: "PanelPosition \<Rightarrow> PanelPosition \<Rightarrow> bool" where
  "overlap p q =
     (pos_x p < pos_x q + pos_width q \<and> pos_x q < pos_x p + pos_width p \<and>
      pos_y p < pos_y q + pos_height q \<and> pos_y q < pos_y p + pos_height p)"

subsection \<open>The words of the grid algorithm\<close>

text \<open>
  The grid as the design describes it, to be compared with \<open>grid_layout\<close>: two columns
  for more than one panel and one column otherwise, \<open>ceil(n / cols)\<close> rows, the interior
  (page size minus twice the margin) minus the gutters between cells divided evenly among
  the cells, and panel \<open>i\<close> in reading order at row \<open>i div cols\<close> and column
  \<open>i mod cols\<close>.
\<close>

definition spec_cols :: "int \<Rightarrow> int" where
  "spec_cols n = (if 1 < n then 2 else 1)"

definition spec_rows :: "int \<Rightarrow> int" where
  "spec_rows n = \<lceil>real_of_int n / real_of_int (spec_cols n)\<rceil>"

definition spec_cell_width :: "LayoutConfig \<Rightarrow> int \<Rightarrow> int" where
  "spec_cell_width c n =
     (page_width c - 2 * margin c - (spec_cols n - 1) * gutter c) div spec_cols n"

definition spec_cell_height :: "LayoutConfig \<Rightarrow> int \<Rightarrow> int" where
  "spec_cell_height c n =
     (page_height c - 2 * margin c - (spec_rows n - 1) * gutter c) div spec_rows n"

definition spec_cell :: "LayoutConfig \<Rightarrow> int \<Rightarrow> int \<Rightarrow> int \<Rightarrow> PanelPosition" where
  "spec_cell c n row col =
     \<lparr>pos_x = margin c + col * (spec_cell_width c n + gutter c),
      pos_y = margin c + row * (spec_cell_height c n + gutter c),
      pos_width = spec_cell_width c n,
      pos_height = spec_cell_height c n\<rparr>"

subsection \<open>Page composition: \<open>_place_panel\<close>, \<open>_add_text_element\<close>, \<open>_run\<close>\<close>

text \<open>
  A panel is a dictionary read through \<open>get('image_path')\<close> and \<open>'text_elements' in\<close>;
  a text element is a dictionary read through \<open>get\<close> with defaults. A missing key is
  \<open>None\<close>.
\<close>

record text_element =
  te_element_type :: "string option"
  te_text :: "string option"
  te_x :: "int option"
  te_y :: "int option"
  te_font_size :: "int option"

record panel_data =
  image_path :: "string option"
  text_elements :: "text_element list option"

text \<open>
  The imaging library is outside the repository. Which of its calls succeed is a
  parameter: creating the blank page, opening a panel image, resizing it, drawing the
  border rectangle, drawing a text element, saving the page.
\<close>

record imaging =
  new_ok :: "int \<Rightarrow> int \<Rightarrow> string \<Rightarrow> bool"
  open_ok :: "string \<Rightarrow> bool"
  resize_ok :: "int \<Rightarrow> int \<Rightarrow> bool"
  rectangle_ok :: "int \<Rightarrow> int \<Rightarrow> int \<Rightarrow> int \<Rightarrow> bool"
  text_ok :: "text_element \<Rightarrow> bool"
  save_ok :: bool

text \<open>
  The page is the list of drawing operations applied to the blank page, in order:
  a pasted panel image (path, x, y, width, height), the black border of a panel
  (x0, y0, x1, y1), and the three kinds of text (text, x, y, font size).
\<close>

datatype draw_op =
    Paste string int int int int
  | Border int int int int
  | SpeechBubble string int int int
  | Caption string int int int
  | SoundEffect string int int int

text \<open>
  \<open>_place_panel\<close>: returns at once when the panel has no image path (\<open>None\<close> or the
  empty string); any exception of the body is caught and logged, leaving what was drawn
  before it.
\<close>

definition place_panel ::
  "imaging \<Rightarrow> draw_op list \<Rightarrow> panel_data \<Rightarrow> PanelPosition \<Rightarrow> draw_op list" where
  "place_panel img page pd position =
     (case image_path pd of
        None \<Rightarrow> page
      | Some panel_image_path \<Rightarrow>
          if panel_image_path = [] then page
          else if \<not> open_ok img panel_image_path then page
          else if \<not> resize_ok img (pos_width position) (pos_height position) then page
          else
            (let pasted = page @ [Paste panel_image_path (pos_x position) (pos_y position)
                                    (pos_width position) (pos_height position)]
             in if \<not> rectangle_ok img (pos_x position) (pos_y position)
                       (pos_x position + pos_width position)
                       (pos_y position + pos_height position)
                then pasted
                else pasted @ [Border (pos_x position) (pos_y position)
                                 (pos_x position + pos_width position)
                                 (pos_y position + pos_height position)]))"

definition get_default :: "'a option \<Rightarrow> 'a \<Rightarrow> 'a" where
  "get_default v d = (case v of None \<Rightarrow> d | Some a \<Rightarrow> a)"

definition add_text_element :: "imaging \<Rightarrow> draw_op list \<Rightarrow> text_element \<Rightarrow> draw_op list" where
  "add_text_element img page text_elem =
     (let elem_type = get_default (te_element_type text_elem) ''caption'';
          txt = get_default (te_text text_elem) [];
          x = get_default (te_x text_elem) 0;
          y = get_default (te_y text_elem) 0;
          font_size = get_default (te_font_size text_elem) 16
      in if \<not> text_ok img text_elem then page
         else if elem_type = ''speech_bubble'' then page @ [SpeechBubble txt x y font_size]
         else if elem_type = ''caption'' then page @ [Caption txt x y font_size]
         else if elem_type = ''sound_effect'' then page @ [SoundEffect txt x y font_size]
         else page)"

text \<open>The two loops of \<open>_run\<close>.\<close>

fun place_panels ::
  "imaging \<Rightarrow> draw_op list \<Rightarrow> (panel_data \<times> PanelPosition) list \<Rightarrow> draw_op list" where
  "place_panels img page [] = page"
| "place_panels img page ((pd, position) # rest) =
     place_panels img (place_panel img page pd position) rest"

fun add_text_elements :: "imaging \<Rightarrow> draw_op list \<Rightarrow> text_element list \<Rightarrow> draw_op list" where
  "add_text_elements img page [] = page"
| "add_text_elements img page (te # rest) =
     add_text_elements img (add_text_element img page te) rest"

fun add_panel_texts :: "imaging \<Rightarrow> draw_op list \<Rightarrow> panel_data list \<Rightarrow> draw_op list" where
  "add_panel_texts img page [] = page"
| "add_panel_texts img page (pd # rest) =
     add_panel_texts img
       (case text_elements pd of None \<Rightarrow> page | Some tes \<Rightarrow> add_text_elements img page tes)
       rest"

text \<open>
  \<open>ComicLayoutTool._run\<close>, on the parsed configuration. The source returns the path of
  the saved page; the model returns what was drawn on it. Every exception is logged and
  raised again.
\<close>

definition layout_run ::
  "imaging \<Rightarrow> panel_data list \<Rightarrow> string \<Rightarrow> LayoutConfig \<Rightarrow> py_error + draw_op list" where
  "layout_run img panels layout_style layout_config =
     (if \<not> new_ok img (page_width layout_config) (page_height layout_config)
             (background_color layout_config)
      then Inl (ValueError ''Image.new'')
      else
        (case calculate_positions (int (length panels)) layout_style layout_config of
           Inl e \<Rightarrow> Inl e
         | Inr panel_positions \<Rightarrow>
             (let placed = place_panels img [] (zip panels panel_positions);
                  page = add_panel_texts img placed panels
              in if \<not> save_ok img then Inl (OSError ''page.save'') else Inr page)))"


definition all_ok :: imaging where
  "all_ok =
     \<lparr>new_ok = (\<lambda>_ _ _. True), open_ok = (\<lambda>_. True), resize_ok = (\<lambda>_ _. True),
      rectangle_ok = (\<lambda>_ _ _ _. True), text_ok = (\<lambda>_. True), save_ok = True\<rparr>"

section \<open>Export: \<open>src/tools/export_tools.py\<close>\<close>

record ExportResult =
  format :: string
  output_path :: string
  file_size :: int
  page_count :: int

text \<open>
  What an exporter writes: a PDF document (title, author, the page images drawn, in
  order) or a CBZ archive (the numbered page entries, and the title and page count of
  its \<open>ComicInfo.txt\<close>).
\<close>

datatype artifact =
    PdfDocument string string "string list"
  | CbzArchive "(nat \<times> string) list" string int

text \<open>
  The file system, \<open>pathlib\<close> and the rendering libraries are outside the repository and
  are parameters: whether the output at a path can be created, written and measured;
  whether a page image can be read and added; whether page \<open>idx\<close> of a web export can be
  saved under the output directory, and its size; the size of a written file; the
  lower-cased suffix of a path and the path with its suffix replaced.
\<close>

record filesystem =
  can_write :: "string \<Rightarrow> bool"
  page_readable :: "string \<Rightarrow> bool"
  web_page_saved :: "string \<Rightarrow> nat \<Rightarrow> bool"
  web_page_size :: "string \<Rightarrow> nat \<Rightarrow> int"
  stat_size :: "string \<Rightarrow> artifact \<Rightarrow> int"
  suffix_lower :: "string \<Rightarrow> string"
  with_suffix :: "string \<Rightarrow> string \<Rightarrow> string"

subsection \<open>\<open>PDFExportTool._run\<close>\<close>

text \<open>The page loop: a page that cannot be added is logged and skipped.\<close>

fun pdf_add_pages :: "filesystem \<Rightarrow> string list \<Rightarrow> string list \<Rightarrow> string list" where
  "pdf_add_pages fs canvas [] = canvas"
| "pdf_add_pages fs canvas (page_path # rest) =
     pdf_add_pages fs (if page_readable fs page_path then canvas @ [page_path] else canvas) rest"

definition pdf_run ::
  "filesystem \<Rightarrow> string list \<Rightarrow> string \<Rightarrow> string \<Rightarrow> string \<Rightarrow> py_error + ExportResult" where
  "pdf_run fs pages output_file title author =
     (if \<not> can_write fs output_file then Inl (OSError output_file)
      else
        (let c = PdfDocument title author (pdf_add_pages fs [] pages)
         in Inr \<lparr>format = ''pdf'',
                 output_path = output_file,
                 file_size = stat_size fs output_file c,
                 page_count = int (length pages)\<rparr>))"

subsection \<open>\<open>CBZExportTool._run\<close>\<close>

text \<open>\<open>enumerate(pages, 1)\<close>: the entry of page \<open>idx\<close> is named from \<open>idx\<close>.\<close>

fun cbz_add_pages ::
  "filesystem \<Rightarrow> (nat \<times> string) list \<Rightarrow> nat \<Rightarrow> string list \<Rightarrow> (nat \<times> string) list" where
  "cbz_add_pages fs cbz idx [] = cbz"
| "cbz_add_pages fs cbz idx (page_path # rest) =
     cbz_add_pages fs (if page_readable fs page_path then cbz @ [(idx, page_path)] else cbz)
       (Suc idx) rest"

definition cbz_run ::
  "filesystem \<Rightarrow> string list \<Rightarrow> string \<Rightarrow> string \<Rightarrow> py_error + ExportResult" where
  "cbz_run fs pages out_path title =
     (let output_file =
            (if suffix_lower fs out_path \<noteq> ''.cbz'' then with_suffix fs out_path ''.cbz''
             else out_path)
      in if \<not> can_write fs output_file then Inl (OSError output_file)
         else
           (let cbz = CbzArchive (cbz_add_pages fs [] 1 pages) title (int (length pages))
            in Inr \<lparr>format = ''cbz'',
                    output_path = output_file,
                    file_size = stat_size fs output_file cbz,
                    page_count = int (length pages)\<rparr>))"

subsection \<open>\<open>WebExportTool._run\<close>\<close>

text \<open>
  The page loop keeps the pages it could process (\<open>web_pages\<close>, here by their index) and
  the sum of their sizes; a page that cannot be processed is logged and skipped.
\<close>

fun web_process_pages ::
  "filesystem \<Rightarrow> string \<Rightarrow> nat list \<times> int \<Rightarrow> nat \<Rightarrow> string list \<Rightarrow> nat list \<times> int" where
  "web_process_pages fs output_dir (web_pages, total_size) idx [] = (web_pages, total_size)"
| "web_process_pages fs output_dir (web_pages, total_size) idx (page_path # rest) =
     web_process_pages fs output_dir
       (if page_readable fs page_path \<and> web_page_saved fs output_dir idx
        then (web_pages @ [idx], total_size + web_page_size fs output_dir idx)
        else (web_pages, total_size))
       (Suc idx) rest"

definition web_run ::
  "filesystem \<Rightarrow> string list \<Rightarrow> string \<Rightarrow> string \<Rightarrow> py_error + ExportResult" where
  "web_run fs pages output_dir title =
     (if \<not> can_write fs output_dir then Inl (OSError output_dir)
      else
        (case web_process_pages fs output_dir ([], 0) 1 pages of
           (web_pages, total_size) \<Rightarrow>
             (let html_path = output_dir @ ''/index.html''
              in if \<not> can_write fs html_path then Inl (OSError html_path)
                 else Inr \<lparr>format = ''web'',
                         output_path = html_path,
                         file_size = total_size,
                         page_count = int (length web_pages)\<rparr>)))"

subsection \<open>\<open>ExportManager.export_all\<close>\<close>

text \<open>
  One pass of the loop body: the exporter the format name selects, if any, run on the
  path \<open>export_all\<close> builds for it. \<open>None\<close> is a format name that matches no branch.
\<close>

definition export_format ::
  "filesystem \<Rightarrow> string list \<Rightarrow> string \<Rightarrow> string \<Rightarrow> string \<Rightarrow> (py_error + ExportResult) option"
  where
  "export_format fs pages output_dir title format_name =
     (if format_name = ''pdf''
      then Some (pdf_run fs pages (output_dir @ ''/'' @ title @ ''.pdf'') title ''AI Generated'')
      else if format_name = ''cbz''
      then Some (cbz_run fs pages (output_dir @ ''/'' @ title @ ''.cbz'') title)
      else if format_name = ''web''
      then Some (web_run fs pages (output_dir @ ''/web'') title)
      else None)"

text \<open>
  The loop: a result is stored under its format name; an exception is caught and logged,
  and the dictionary is left as it was.
\<close>

fun export_loop ::
  "filesystem \<Rightarrow> string list \<Rightarrow> string \<Rightarrow> string \<Rightarrow> (string \<rightharpoonup> ExportResult) \<Rightarrow> string list
     \<Rightarrow> (string \<rightharpoonup> ExportResult)" where
  "export_loop fs pages output_dir title results [] = results"
| "export_loop fs pages output_dir title results (format_name # rest) =
     export_loop fs pages output_dir title
       (case export_format fs pages output_dir title format_name of
          Some (Inr result) \<Rightarrow> results(format_name \<mapsto> result)
        | Some (Inl e) \<Rightarrow> results
        | None \<Rightarrow> results)
       rest"

definition export_all ::
  "filesystem \<Rightarrow> string list \<Rightarrow> string \<Rightarrow> string \<Rightarrow> string list \<Rightarrow> (string \<rightharpoonup> ExportResult)" where
  "export_all fs pages output_dir title formats =
     export_loop fs pages output_dir title Map.empty formats"

text \<open>
  The same page set under two file systems: each page is readable in both or in neither,
  and each page of a web export can be saved in both or in neither.
\<close>

definition same_pages :: "filesystem \<Rightarrow> filesystem \<Rightarrow> string \<Rightarrow> string list \<Rightarrow> bool" where
  "same_pages fs1 fs2 output_dir pages =
     ((\<forall>p \<in> set pages. page_readable fs1 p = page_readable fs2 p) \<and>
      (\<forall>idx \<in> {1..length pages}.
         web_page_saved fs1 (output_dir @ ''/web'') idx = web_page_saved fs2 (output_dir @ ''/web'') idx))"

section \<open>Image generation: \<open>src/tools/image_tools.py\<close>\<close>

record ImageGenerationResult =
  image_url :: string
  res_prompt :: string
  res_model :: string
  res_width :: int
  res_height :: int

text \<open>The fields of the tool that \<open>_run\<close> reads (\<open>self.model\<close>, \<open>self.width\<close>, ...).\<close>

record ModelsLabImageTool =
  self_model :: string
  self_width :: int
  self_height :: int
  use_community :: bool

text \<open>
  The response of the image service is a dictionary read through \<open>get("status")\<close>,
  \<open>["output"][0]\<close>, \<open>get('id')\<close> and \<open>get("message")\<close>; \<open>resp_id\<close> is the text that
  formatting the identifier gives. The service is outside the repository: it is the list
  of what it does at each request still to come, an answer or an exception. A request
  takes the head of the list, so the list that is left tells how many requests were made.
\<close>

record api_response =
  resp_status :: "string option"
  resp_output :: "string list option"
  resp_id :: "string option"
  resp_message :: "string option"

datatype api_outcome = Answers api_response | Raises string

definition text_to_image :: "api_outcome list \<Rightarrow> (py_error + api_response) \<times> api_outcome list" where
  "text_to_image service =
     (case service of
        [] \<Rightarrow> (Inl (ApiError ''no response''), [])
      | Answers r # later \<Rightarrow> (Inr r, later)
      | Raises e # later \<Rightarrow> (Inl (ApiError e), later))"

text \<open>\<open>a or b\<close> on an optional integer: \<open>b\<close> when \<open>a\<close> is \<open>None\<close> or zero.\<close>

definition int_or :: "int option \<Rightarrow> int \<Rightarrow> int" where
  "int_or a b = (case a of None \<Rightarrow> b | Some v \<Rightarrow> if v = 0 then b else v)"

text \<open>
  \<open>ModelsLabImageTool._run\<close>. Both branches on \<open>use_community\<close> build a request and
  call the service once; the request does not change what the service answers here, and
  the arguments that only go into the request (\<open>negative_prompt\<close>, \<open>seed\<close>) are left
  out. Every exception is logged and raised again.
\<close>

definition image_run ::
  "ModelsLabImageTool \<Rightarrow> api_outcome list \<Rightarrow> string \<Rightarrow> int option \<Rightarrow> int option \<Rightarrow> string option
     \<Rightarrow> (py_error + ImageGenerationResult) \<times> api_outcome list" where
  "image_run tool service prompt width height style =
     (let enhanced_prompt =
            (case style of
               None \<Rightarrow> prompt
             | Some s \<Rightarrow> if s = [] then prompt else prompt @ '', '' @ s @ '' style'')
      in case text_to_image service of
           (Inl e, later) \<Rightarrow> (Inl e, later)
         | (Inr response, later) \<Rightarrow>
             if resp_status response = Some ''success'' then
               (case resp_output response of
                  None \<Rightarrow> (Inl (ValueError ''output''), later)
                | Some [] \<Rightarrow> (Inl (ValueError ''output[0]''), later)
                | Some (url # _) \<Rightarrow>
                    (Inr \<lparr>image_url = url,
                          res_prompt = enhanced_prompt,
                          res_model = self_model tool,
                          res_width = int_or width (self_width tool),
                          res_height = int_or height (self_height tool)\<rparr>, later))
             else if resp_status response = Some ''processing'' then
               (Inr \<lparr>image_url = ''processing:'' @ get_default (resp_id response) ''None'',
                     res_prompt = enhanced_prompt,
                     res_model = self_model tool,
                     res_width = int_or width (self_width tool),
                     res_height = int_or height (self_height tool)\<rparr>, later)
             else
               (Inl (ApiError (''ModelsLab API error: '' @
                       get_default (resp_message response) ''Unknown error'')), later))"

section \<open>Job tracking: \<open>src/api/main.py\<close>\<close>

text \<open>
  What the generator returns is \<open>final_result.pydantic\<close> of the crew library. Its class
  is not checked and the annotation \<open>ComicBook\<close> is not enforced, so each attribute that
  the task reads may be missing (\<open>None\<close> here); reading a missing attribute raises
  \<open>AttributeError\<close>. A \<open>ComicBook\<close> has all four.
\<close>

record generated_result =
  attr_title :: "string option"
  attr_total_pages :: "int option"
  attr_format :: "string option"
  attr_pages :: "string list option"

definition is_comic_book :: "generated_result \<Rightarrow> bool" where
  "is_comic_book result =
     (attr_title result \<noteq> None \<and> attr_total_pages result \<noteq> None \<and>
      attr_format result \<noteq> None \<and> attr_pages result \<noteq> None)"

text \<open>Reading an attribute: the value, or the message of the exception.\<close>

definition getattr :: "'a option \<Rightarrow> string \<Rightarrow> string + 'a" where
  "getattr v name =
     (case v of None \<Rightarrow> Inl (''object has no attribute '' @ name) | Some a \<Rightarrow> Inr a)"

record job_result =
  result_title :: string
  result_total_pages :: int
  result_format :: string
  result_file_path :: "string option"

text \<open>
  An entry of the dictionary \<open>jobs\<close>. The progress values are the literals \<open>0.0\<close>,
  \<open>0.1\<close>, \<open>0.3\<close>, \<open>0.6\<close> and \<open>1.0\<close>, ordered as floats the way they are as decimals.
\<close>

record job =
  job_id :: string
  status :: string
  progress :: real
  current_stage :: string
  message :: string
  job_result :: "job_result option"

text \<open>\<open>generate_comic\<close>: the entry it stores for a new job.\<close>

definition generate_comic :: "string \<Rightarrow> job" where
  "generate_comic jid =
     \<lparr>job_id = jid, status = ''queued'', progress = 0.0, current_stage = ''Queued'',
      message = ''Comic generation queued'', job_result = None\<rparr>"

text \<open>One assignment \<open>jobs[job_id][key] = value\<close>.\<close>

datatype job_update =
    SetStatus string
  | SetStage string
  | SetProgress real
  | SetResult job_result
  | SetMessage string

fun apply_update :: "job \<Rightarrow> job_update \<Rightarrow> job" where
  "apply_update j (SetStatus s) = j\<lparr>status := s\<rparr>"
| "apply_update j (SetStage s) = j\<lparr>current_stage := s\<rparr>"
| "apply_update j (SetProgress p) = j\<lparr>progress := p\<rparr>"
| "apply_update j (SetResult r) = j\<lparr>job_result := Some r\<rparr>"
| "apply_update j (SetMessage m) = j\<lparr>message := m\<rparr>"

text \<open>
  The dictionary that the task stores under \<open>"result"\<close>. Its values are evaluated in the
  order \<open>result.title\<close>, \<open>result.total_pages\<close>, \<open>result.format\<close>, \<open>result.pages\<close>, and the
  first missing attribute raises.
\<close>

definition result_entry :: "generated_result \<Rightarrow> string + job_result" where
  "result_entry result =
     (case getattr (attr_title result) ''title'' of
        Inl e \<Rightarrow> Inl e
      | Inr t \<Rightarrow>
          (case getattr (attr_total_pages result) ''total_pages'' of
             Inl e \<Rightarrow> Inl e
           | Inr n \<Rightarrow>
               (case getattr (attr_format result) ''format'' of
                  Inl e \<Rightarrow> Inl e
                | Inr f \<Rightarrow>
                    (case getattr (attr_pages result) ''pages'' of
                       Inl e \<Rightarrow> Inl e
                     | Inr ps \<Rightarrow>
                         Inr \<lparr>result_title = t,
                              result_total_pages = n,
                              result_format = f,
                              result_file_path =
                                (case ps of [] \<Rightarrow> None | p # _ \<Rightarrow> Some p)\<rparr>))))"

text \<open>
  \<open>generate_comic_task\<close>: the assignments it makes, in order. The generator is outside
  this function: \<open>init_error\<close> is the exception of \<open>ComicBookGenerator()\<close>, if it raises,
  and \<open>generated\<close> what \<open>generate_from_pdf\<close> or \<open>generate_from_text\<close> returns or raises
  (an exception by its message). The status, the stage and the progress of a finished
  job are assigned before the result dictionary is built, all inside the \<open>try\<close>; an
  exception anywhere leads to the handler, which sets the status and the message.
\<close>

definition generate_comic_task ::
  "string option \<Rightarrow> string + generated_result \<Rightarrow> job_update list" where
  "generate_comic_task init_error generated =
     [SetStatus ''processing'', SetStage ''Initializing'', SetProgress 0.1] @
     (case init_error of
        Some e \<Rightarrow> [SetStatus ''failed'', SetMessage e]
      | None \<Rightarrow>
          [SetStage ''Generating content'', SetProgress 0.3,
           SetStage ''Generating artwork'', SetProgress 0.6] @
          (case generated of
             Inl e \<Rightarrow> [SetStatus ''failed'', SetMessage e]
           | Inr result \<Rightarrow>
               [SetStatus ''completed'', SetStage ''Complete'', SetProgress 1.0] @
               (case result_entry result of
                  Inl e \<Rightarrow> [SetStatus ''failed'', SetMessage e]
                | Inr entry \<Rightarrow> [SetResult entry])))"

text \<open>The states a job goes through: the entry after each assignment, the first one first.\<close>

fun job_states :: "job \<Rightarrow> job_update list \<Rightarrow> job list" where
  "job_states j [] = [j]"
| "job_states j (u # us) = j # job_states (apply_update j u) us"

definition job_history ::
  "string \<Rightarrow> string option \<Rightarrow> string + generated_result \<Rightarrow> job list" where
  "job_history jid init_error generated =
     job_states (generate_comic jid) (generate_comic_task init_error generated)"

text \<open>
  The state machine \<open>queued \<rightarrow> processing \<rightarrow> {completed | failed}\<close>: a step of the status
  from one state of the job to the next either keeps it or is one of these transitions.
\<close>

definition status_step :: "string \<Rightarrow> string \<Rightarrow> bool" where
  "status_step s t =
     (s = t \<or> (s = ''queued'' \<and> t = ''processing'') \<or>
      (s = ''processing'' \<and> (t = ''completed'' \<or> t = ''failed'')))"

fun follows_machine :: "job list \<Rightarrow> bool" where
  "follows_machine (j # k # rest) = (status_step (status j) (status k) \<and> follows_machine (k # rest))"
| "follows_machine _ = True"

fun progress_monotone :: "job list \<Rightarrow> bool" where
  "progress_monotone (j # k # rest) = (progress j \<le> progress k \<and> progress_monotone (k # rest))"
| "progress_monotone _ = True"

section \<open>Visual stage inputs: \<open>src/main.py\<close>\<close>

text \<open>
  The fields of a \<open>Panel\<close> and of the \<open>ComicScript\<close> that the orchestrator reads when
  it prepares the visual stage. \<open>ComicScript\<close> has no \<open>characters\<close> and no \<open>summary\<close>
  attribute, so the two lookups that guard for them give the empty list and the empty
  string.
\<close>

record Panel =
  panel_number :: int
  page_number :: int
  description :: string
  camera_angle :: string
  mood :: string

record ComicScript =
  script_total_panels :: int
  script_panels :: "Panel list"
  script_color_palette :: "string list"

text \<open>One dictionary of \<open>panel_inputs\<close>.\<close>

record panel_input =
  in_panel_number :: int
  in_page_number :: int
  in_description :: string
  in_mood :: string
  in_camera_angle :: string
  in_art_style :: string
  in_color_palette :: "string list"
  in_characters :: "string list"
  in_story_summary :: string

text \<open>
  The list comprehension that builds \<open>panel_inputs\<close>. The list goes to
  \<open>kickoff_for_each\<close> of the crew library, which is outside the repository, and the
  artworks are the \<open>pydantic\<close> values of what that call returns, in the order it
  returns them.
\<close>

definition panel_inputs :: "ComicScript \<Rightarrow> string \<Rightarrow> panel_input list" where
  "panel_inputs comic_script art_style =
     map (\<lambda>panel.
            \<lparr>in_panel_number = panel_number panel,
             in_page_number = page_number panel,
             in_description = description panel,
             in_mood = mood panel,
             in_camera_angle = camera_angle panel,
             in_art_style = art_style,
             in_color_palette = script_color_palette comic_script,
             in_characters = [],
             in_story_summary = []\<rparr>)
         (script_panels comic_script)"

text \<open>
  \<open>kickoff_for_each\<close> belongs to the crew library. Modelled from the library's
  documentation: it runs the crew once for each input of the list, one after the other
  in the order of the list, and returns the outputs in that order. What one run of the
  crew returns, and how long it takes, is the parameter \<open>kickoff\<close>.
\<close>

fun crew_kickoff_for_each :: "('i \<Rightarrow> 'o) \<Rightarrow> 'i list \<Rightarrow> 'o list" where
  "crew_kickoff_for_each kickoff [] = []"
| "crew_kickoff_for_each kickoff (input_data # rest) =
     kickoff input_data # crew_kickoff_for_each kickoff rest"

text \<open>
  The visual stage of \<open>generate_from_pdf\<close> and \<open>generate_from_text\<close>: the inputs, the
  call of the library, and the list \<open>[r.pydantic for r in panel_results]\<close> handed on as
  \<open>panel_artworks\<close>. The code neither sorts the results nor checks their number.
\<close>

definition visual_stage ::
  "(panel_input list \<Rightarrow> 'o list) \<Rightarrow> ('o \<Rightarrow> 'a) \<Rightarrow> ComicScript \<Rightarrow> string \<Rightarrow> 'a list" where
  "visual_stage kickoff_for_each pydantic comic_script art_style =
     (let panel_results = kickoff_for_each (panel_inputs comic_script art_style)
      in map pydantic panel_results)"

section \<open>Auxiliary definitions for the statements\<close>

text \<open>The rectangle that the loop body of \<open>_grid_layout\<close> builds for index \<open>i\<close>.\<close>

definition grid_cell :: "LayoutConfig \<Rightarrow> int \<Rightarrow> int \<Rightarrow> PanelPosition" where
  "grid_cell c n i =
     \<lparr>pos_x = margin c + (i mod grid_cols n) *
        ((page_width c - 2 * margin c - (grid_cols n - 1) * gutter c) div grid_cols n + gutter c),
      pos_y = margin c + (i div grid_cols n) *
        ((page_height c - 2 * margin c - (grid_rows n - 1) * gutter c) div grid_rows n + gutter c),
      pos_width = (page_width c - 2 * margin c - (grid_cols n - 1) * gutter c) div grid_cols n,
      pos_height = (page_height c - 2 * margin c - (grid_rows n - 1) * gutter c) div grid_rows n\<rparr>"

text \<open>A page whose margins are wider than half the page.\<close>

definition tight_config :: LayoutConfig where
  "tight_config =
     \<lparr>page_width = 100, page_height = 100, margin = 60, gutter = 10,
      background_color = ''white''\<rparr>"




text \<open>What the loop of \<open>export_all\<close> stores for the outcome of one exporter.\<close>

definition stored :: "(py_error + ExportResult) option \<Rightarrow> ExportResult option" where
  "stored outcome = (case outcome of Some (Inr result) \<Rightarrow> Some result | _ \<Rightarrow> None)"

text \<open>
  Three file systems: one where the PDF of the book \<open>Book\<close> under \<open>out\<close> cannot be
  written, and two where everything can be written and one page image is missing, which
  differ in the sizes they report.
\<close>

definition pdf_fails :: filesystem where
  "pdf_fails =
     \<lparr>can_write = (\<lambda>path. path \<noteq> ''out/Book.pdf''),
      page_readable = (\<lambda>_. True),
      web_page_saved = (\<lambda>_ _. True),
      web_page_size = (\<lambda>_ _. 1),
      stat_size = (\<lambda>_ _. 1),
      suffix_lower = (\<lambda>path. drop (length path - 4) path),
      with_suffix = (\<lambda>path s. path @ s)\<rparr>"

definition first_fs :: filesystem where
  "first_fs =
     \<lparr>can_write = (\<lambda>_. True),
      page_readable = (\<lambda>path. path \<noteq> ''missing.png''),
      web_page_saved = (\<lambda>_ _. True),
      web_page_size = (\<lambda>_ _. 7),
      stat_size = (\<lambda>_ _. 9),
      suffix_lower = (\<lambda>path. drop (length path - 4) path),
      with_suffix = (\<lambda>path s. path @ s)\<rparr>"

definition second_fs :: filesystem where
  "second_fs =
     \<lparr>can_write = (\<lambda>_. True),
      page_readable = (\<lambda>path. path \<noteq> ''missing.png''),
      web_page_saved = (\<lambda>_ _. True),
      web_page_size = (\<lambda>_ _. 8),
      stat_size = (\<lambda>_ _. 10),
      suffix_lower = (\<lambda>path. drop (length path - 4) path),
      with_suffix = (\<lambda>path s. path @ s)\<rparr>"

text \<open>An image tool with the defaults of the class, and two answers of the service.\<close>

definition flux_tool :: ModelsLabImageTool where
  "flux_tool =
     \<lparr>self_model = ''flux'', self_width = 1024, self_height = 1024, use_community = True\<rparr>"

definition pending :: api_response where
  "pending =
     \<lparr>resp_status = Some ''processing'', resp_output = None, resp_id = Some ''42'',
      resp_message = None\<rparr>"

definition finished :: api_response where
  "finished =
     \<lparr>resp_status = Some ''success'', resp_output = Some [''https://img/42.png''],
      resp_id = Some ''42'', resp_message = None\<rparr>"

text \<open>
  Two objects a generator can return: a comic book, and an object with a title and a
  page total but no \<open>format\<close> and no \<open>pages\<close>, as a script has.
\<close>

definition sample_book :: generated_result where
  "sample_book =
     \<lparr>attr_title = Some ''Robot'', attr_total_pages = Some 1, attr_format = Some ''cbz'',
      attr_pages = Some [''out/page_1.png'']\<rparr>"


text \<open>
  A script of three panels, and a crew whose output for a panel is the panel number it
  was asked for and an image address.
\<close>

definition three_panels :: ComicScript where
  "three_panels =
     \<lparr>script_total_panels = 3,
      script_panels =
        [\<lparr>panel_number = 1, page_number = 1, description = ''a desert'',
          camera_angle = ''wide'', mood = ''calm''\<rparr>,
         \<lparr>panel_number = 2, page_number = 1, description = ''a robot'',
          camera_angle = ''medium'', mood = ''curious''\<rparr>,
         \<lparr>panel_number = 3, page_number = 2, description = ''a flower'',
          camera_angle = ''close-up'', mood = ''hopeful''\<rparr>],
      script_color_palette = []\<rparr>"

definition echo_crew :: "panel_input \<Rightarrow> int \<times> string" where
  "echo_crew inp = (in_panel_number inp, ''https://img/'' @ in_description inp)"

section \<open>Properties of the grid layout\<close>

subsection \<open>Grid dimensions and the list the loop builds\<close>

lemma grid_cols_pos: "0 < grid_cols n"
  by (simp add: grid_cols_def)

lemma grid_rows_pos: "1 \<le> n \<Longrightarrow> 1 \<le> grid_rows n"
  unfolding grid_rows_def grid_cols_def by (auto simp: pos_imp_zdiv_pos_iff)

lemma grid_rows_ceiling: "grid_rows n = \<lceil>real_of_int n / real_of_int (grid_cols n)\<rceil>"
  unfolding grid_rows_def grid_cols_def by (auto simp: ceiling_divide_eq_div)

lemma length_py_range: "length (py_range n) = nat n"
  by (simp add: py_range_def)

lemma py_range_nth: "i < nat n \<Longrightarrow> py_range n ! i = int i"
  by (simp add: py_range_def)

lemma py_range_2: "py_range 2 = [0, 1]"
  by (simp add: py_range_def upt_rec numeral_2_eq_2)


lemma grid_layout_cells_eq:
  assumes "1 \<le> n"
  shows "grid_layout n c = Inr (map (grid_cell c n) (py_range n))"
proof -
  have "grid_rows n \<noteq> 0" "grid_cols n \<noteq> 0"
    using grid_rows_pos [OF assms] grid_cols_pos [of n] by auto
  then show ?thesis
    by (simp add: grid_layout_def py_floordiv_def Let_def grid_cell_def)
qed


lemma calculate_positions_grid: "calculate_positions n layout_style c = grid_layout n c"
  by (simp add: calculate_positions_def dynamic_layout_def traditional_layout_def)


lemma row_in_grid:
  assumes "0 \<le> i" "i < n"
  shows "0 \<le> i div grid_cols n" "i div grid_cols n < grid_rows n"
  using assms unfolding grid_rows_def grid_cols_def by (auto split: if_splits)

lemma col_in_grid:
  shows "0 \<le> i mod grid_cols n" "i mod grid_cols n < grid_cols n"
  unfolding grid_cols_def by (auto split: if_splits)

subsection \<open>Arithmetic of one direction of the grid\<close>

text \<open>
  \<open>k\<close> cells share an extent \<open>T\<close> with a gutter \<open>g\<close> between neighbours: the size of a
  cell is \<open>s = (T - (k - 1) * g) div k\<close> and cell \<open>j\<close> starts at \<open>j * (s + g)\<close>.
\<close>

lemma cell_step_nonneg:
  fixes T g k :: int
  assumes "0 < k" "0 \<le> g" "0 \<le> T"
  shows "0 \<le> (T - (k - 1) * g) div k + g"
proof -
  have "(T - (k - 1) * g) div k + g = (T - (k - 1) * g + g * k) div k"
    using assms(1) by simp
  also have "T - (k - 1) * g + g * k = T + g" by (simp add: algebra_simps)
  finally show ?thesis using assms by (simp add: pos_imp_zdiv_nonneg_iff)
qed

lemma cell_fits:
  fixes T g k j :: int
  assumes "0 < k" "0 \<le> g" "0 \<le> T" "0 \<le> j" "j < k"
  shows "0 \<le> j * ((T - (k - 1) * g) div k + g)"
    and "j * ((T - (k - 1) * g) div k + g) + (T - (k - 1) * g) div k \<le> T"
proof -
  let ?s = "(T - (k - 1) * g) div k"
  have step: "0 \<le> ?s + g" using cell_step_nonneg assms by simp
  show "0 \<le> j * (?s + g)" using step assms(4) by simp
  have "j * (?s + g) \<le> (k - 1) * (?s + g)"
    using assms(5) step by (intro mult_right_mono) auto
  moreover have "k * ?s \<le> T - (k - 1) * g"
    using assms(1) pos_mod_sign [of k "T - (k - 1) * g"]
      mult_div_mod_eq [of k "T - (k - 1) * g"] by linarith
  ultimately show "j * (?s + g) + ?s \<le> T"
    by (simp add: algebra_simps)
qed

lemma cell_disjoint:
  fixes s g j j' :: int
  assumes "0 \<le> s + g" "0 \<le> g" "j < j'"
  shows "j * (s + g) + s \<le> j' * (s + g)"
proof -
  have "(j + 1) * (s + g) \<le> j' * (s + g)"
    using assms by (intro mult_right_mono) auto
  then show ?thesis using assms(2) by (simp add: algebra_simps)
qed

subsection \<open>Containment and disjointness of the cells\<close>

lemma cell_within:
  assumes "0 \<le> i" "i < n" "0 \<le> margin c" "0 \<le> gutter c"
    "2 * margin c \<le> page_width c" "2 * margin c \<le> page_height c"
  shows "within_interior c (grid_cell c n i)"
proof -
  have n: "1 \<le> n" using assms by simp
  have W: "0 \<le> page_width c - 2 * margin c" and H: "0 \<le> page_height c - 2 * margin c"
    using assms by simp_all
  note cx = cell_fits [OF grid_cols_pos [of n] assms(4) W col_in_grid [of i n]]
  have rp: "0 < grid_rows n" using grid_rows_pos [OF n] by simp
  note cy = cell_fits [OF rp assms(4) H row_in_grid [OF assms(1,2)]]
  show ?thesis
    unfolding within_interior_def grid_cell_def using cx cy assms(3) by simp
qed

lemma cell_no_overlap:
  assumes "0 \<le> i" "i < j" "j < n" "0 \<le> margin c" "0 \<le> gutter c"
    "2 * margin c \<le> page_width c" "2 * margin c \<le> page_height c"
  shows "\<not> overlap (grid_cell c n i) (grid_cell c n j)"
proof -
  have n: "1 \<le> n" using assms by simp
  have W: "0 \<le> page_width c - 2 * margin c" and H: "0 \<le> page_height c - 2 * margin c"
    using assms by simp_all
  have rp: "0 < grid_rows n" using grid_rows_pos [OF n] by simp
  note sx = cell_step_nonneg [OF grid_cols_pos [of n] assms(5) W]
  note sy = cell_step_nonneg [OF rp assms(5) H]
  have le: "i div grid_cols n \<le> j div grid_cols n"
    using assms(2) grid_cols_pos [of n] by (simp add: zdiv_mono1)
  show ?thesis
  proof (cases "i div grid_cols n < j div grid_cols n")
    case True
    from cell_disjoint [OF sy assms(5) True]
    show ?thesis unfolding overlap_def grid_cell_def by simp
  next
    case False
    then have eq: "i div grid_cols n = j div grid_cols n" using le by simp
    have "i mod grid_cols n = i - grid_cols n * (i div grid_cols n)"
      by (simp add: minus_mult_div_eq_mod)
    moreover have "j mod grid_cols n = j - grid_cols n * (j div grid_cols n)"
      by (simp add: minus_mult_div_eq_mod)
    ultimately have "i mod grid_cols n < j mod grid_cols n"
      using assms(2) eq by simp
    from cell_disjoint [OF sx assms(5) this]
    show ?thesis unfolding overlap_def grid_cell_def by simp
  qed
qed

text \<open>
  The sizes are non-negative as soon as the interior has room for the gutters; with
  less room a cell can have a negative width or height.
\<close>

lemma grid_cell_size_nonneg:
  assumes "1 \<le> n"
    and "(grid_cols n - 1) * gutter c \<le> page_width c - 2 * margin c"
    and "(grid_rows n - 1) * gutter c \<le> page_height c - 2 * margin c"
  shows "0 \<le> pos_width (grid_cell c n i) \<and> 0 \<le> pos_height (grid_cell c n i)"
proof -
  have "0 < grid_rows n" using grid_rows_pos [OF assms(1)] by simp
  then show ?thesis
    using assms(2,3) grid_cols_pos [of n]
    by (simp add: grid_cell_def pos_imp_zdiv_nonneg_iff)
qed

text \<open>Room for the gutters leaves a non-empty interior.\<close>

lemma gutters_fit_interior:
  fixes k g T :: int
  assumes "1 \<le> k" "0 \<le> g" "(k - 1) * g \<le> T"
  shows "0 \<le> T"
proof -
  have "0 \<le> (k - 1) * g" using assms(1,2) by simp
  then show ?thesis using assms(3) by simp
qed

text \<open>Two cells are at least one gutter apart, side by side or one above the other.\<close>

lemma cell_gutter_apart:
  fixes s g j j' :: int
  assumes "0 \<le> s + g" "j < j'"
  shows "j * (s + g) + s + g \<le> j' * (s + g)"
proof -
  have "(j + 1) * (s + g) \<le> j' * (s + g)"
    using assms by (intro mult_right_mono) auto
  then show ?thesis by (simp add: algebra_simps)
qed

lemma cell_separated:
  assumes "0 \<le> i" "i < j" "j < n" "0 \<le> margin c" "0 \<le> gutter c"
    "2 * margin c \<le> page_width c" "2 * margin c \<le> page_height c"
  shows "pos_x (grid_cell c n i) + pos_width (grid_cell c n i) + gutter c
           \<le> pos_x (grid_cell c n j) \<or>
         pos_y (grid_cell c n i) + pos_height (grid_cell c n i) + gutter c
           \<le> pos_y (grid_cell c n j)"
proof -
  have n: "1 \<le> n" using assms by simp
  have W: "0 \<le> page_width c - 2 * margin c" and H: "0 \<le> page_height c - 2 * margin c"
    using assms by simp_all
  have rp: "0 < grid_rows n" using grid_rows_pos [OF n] by simp
  note sx = cell_step_nonneg [OF grid_cols_pos [of n] assms(5) W]
  note sy = cell_step_nonneg [OF rp assms(5) H]
  have le: "i div grid_cols n \<le> j div grid_cols n"
    using assms(2) grid_cols_pos [of n] by (simp add: zdiv_mono1)
  show ?thesis
  proof (cases "i div grid_cols n < j div grid_cols n")
    case True
    from cell_gutter_apart [OF sy True]
    show ?thesis unfolding grid_cell_def by simp
  next
    case False
    then have eq: "i div grid_cols n = j div grid_cols n" using le by simp
    have "i mod grid_cols n = i - grid_cols n * (i div grid_cols n)"
      by (simp add: minus_mult_div_eq_mod)
    moreover have "j mod grid_cols n = j - grid_cols n * (j div grid_cols n)"
      by (simp add: minus_mult_div_eq_mod)
    ultimately have "i mod grid_cols n < j mod grid_cols n"
      using assms(2) eq by simp
    from cell_gutter_apart [OF sx this]
    show ?thesis unfolding grid_cell_def by simp
  qed
qed

text \<open>
  Claim C1, as amended. For every panel count \<open>n \<ge> 1\<close> and every configuration with a
  positive margin and gutter whose interior has room for the gutters
  (\<open>(cols - 1) * gutter \<le> page_width - 2 * margin\<close> and
  \<open>(rows - 1) * gutter \<le> page_height - 2 * margin\<close>), the grid layout returns \<open>n\<close>
  rectangles; each has a non-negative width and height and lies inside the page
  interior (\<open>x \<ge> margin\<close>, \<open>y \<ge> margin\<close>, \<open>x + width \<le> page_width - margin\<close>,
  \<open>y + height \<le> page_height - margin\<close>, no negative coordinate); and no two of them
  overlap: any two are at least one gutter apart, horizontally or vertically.
\<close>

theorem grid_layout_within_disjoint:
  assumes "1 \<le> n" and "0 < margin c" and "0 < gutter c"
    and "(grid_cols n - 1) * gutter c \<le> page_width c - 2 * margin c"
    and "(grid_rows n - 1) * gutter c \<le> page_height c - 2 * margin c"
  shows "\<exists>ps. grid_layout n c = Inr ps \<and> length ps = nat n \<and>
           (\<forall>i < length ps.
              0 \<le> pos_width (ps ! i) \<and> 0 \<le> pos_height (ps ! i) \<and>
              within_interior c (ps ! i)) \<and>
           (\<forall>i j. i < j \<and> j < length ps \<longrightarrow>
              \<not> overlap (ps ! i) (ps ! j) \<and>
              (pos_x (ps ! i) + pos_width (ps ! i) + gutter c \<le> pos_x (ps ! j) \<or>
               pos_y (ps ! i) + pos_height (ps ! i) + gutter c \<le> pos_y (ps ! j)))"
proof -
  let ?ps = "map (grid_cell c n) (py_range n)"
  have m: "0 \<le> margin c" and g: "0 \<le> gutter c" using assms(2,3) by simp_all
  have "1 \<le> grid_cols n" using grid_cols_pos [of n] by simp
  from gutters_fit_interior [OF this g assms(4)]
  have W: "2 * margin c \<le> page_width c" by simp
  from gutters_fit_interior [OF grid_rows_pos [OF assms(1)] g assms(5)]
  have H: "2 * margin c \<le> page_height c" by simp
  have nth: "?ps ! i = grid_cell c n (int i)" if "i < nat n" for i
    using that by (simp add: length_py_range py_range_nth)
  have len: "length ?ps = nat n" by (simp add: length_py_range)
  have inside: "0 \<le> pos_width (?ps ! i) \<and> 0 \<le> pos_height (?ps ! i) \<and>
      within_interior c (?ps ! i)" if "i < length ?ps" for i
  proof -
    have "i < nat n" using that len by simp
    then show ?thesis
      using nth [of i] cell_within [of "int i" n c] m g W H
        grid_cell_size_nonneg [OF assms(1,4,5), of "int i"] by simp
  qed
  have apart: "\<not> overlap (?ps ! i) (?ps ! j) \<and>
      (pos_x (?ps ! i) + pos_width (?ps ! i) + gutter c \<le> pos_x (?ps ! j) \<or>
       pos_y (?ps ! i) + pos_height (?ps ! i) + gutter c \<le> pos_y (?ps ! j))"
    if "i < j \<and> j < length ?ps" for i j
  proof -
    have "j < nat n" "i < nat n" using that len by simp_all
    then show ?thesis
      using nth [of i] nth [of j] cell_no_overlap [of "int i" "int j" n c]
        cell_separated [of "int i" "int j" n c] that m g W H by simp
  qed
  show ?thesis
    using grid_layout_cells_eq [OF assms(1), of c] len inside apart by blast
qed

theorem grid_layout_within_disjoint_witness:
  "\<exists>ps. grid_layout 5 default_config = Inr ps \<and> length ps = 5 \<and>
     (\<forall>i < length ps.
        0 \<le> pos_width (ps ! i) \<and> 0 \<le> pos_height (ps ! i) \<and>
        within_interior default_config (ps ! i)) \<and>
     (\<forall>i j. i < j \<and> j < length ps \<longrightarrow>
        \<not> overlap (ps ! i) (ps ! j) \<and>
        (pos_x (ps ! i) + pos_width (ps ! i) + 20 \<le> pos_x (ps ! j) \<or>
         pos_y (ps ! i) + pos_height (ps ! i) + 20 \<le> pos_y (ps ! j)))"
proof -
  have cols: "grid_cols 5 = 2" and rows: "grid_rows 5 = 3"
    by (simp_all add: grid_cols_def grid_rows_def)
  have h1: "(1::int) \<le> 5" by simp
  have h2: "0 < margin default_config" by (simp add: default_config_def)
  have h3: "0 < gutter default_config" by (simp add: default_config_def)
  have h4: "(grid_cols 5 - 1) * gutter default_config
      \<le> page_width default_config - 2 * margin default_config"
    by (simp add: cols default_config_def)
  have h5: "(grid_rows 5 - 1) * gutter default_config
      \<le> page_height default_config - 2 * margin default_config"
    by (simp add: rows default_config_def)
  have g: "gutter default_config = 20" by (simp add: default_config_def)
  from grid_layout_within_disjoint [OF h1 h2 h3 h4 h5]
  show ?thesis unfolding g by simp
qed

text \<open>
  Claim C1 as stated fails: on a page of 100 by 100 with margin 60 and gutter 10, all
  positive, two panels get a negative width and the second one starts at \<open>x = 55\<close>, left
  of the margin.
\<close>

theorem grid_layout_tight_page_counterexample:
  "0 < page_width tight_config \<and> 0 < page_height tight_config \<and>
   0 < margin tight_config \<and> 0 < gutter tight_config \<and>
   grid_layout 2 tight_config =
     Inr [\<lparr>pos_x = 60, pos_y = 60, pos_width = - 15, pos_height = - 20\<rparr>,
          \<lparr>pos_x = 55, pos_y = 60, pos_width = - 15, pos_height = - 20\<rparr>] \<and>
   \<not> within_interior tight_config
        \<lparr>pos_x = 55, pos_y = 60, pos_width = - 15, pos_height = - 20\<rparr>"
  by (simp add: grid_layout_def grid_cols_def grid_rows_def py_floordiv_def py_range_2
      tight_config_def within_interior_def Let_def)

subsection \<open>The grid of the design\<close>

lemma spec_cols_eq: "spec_cols n = grid_cols n"
  by (simp add: spec_cols_def grid_cols_def)

lemma spec_rows_eq: "spec_rows n = grid_rows n"
  by (simp add: spec_rows_def spec_cols_eq grid_rows_ceiling)

lemma spec_cell_eq: "spec_cell c n (i div spec_cols n) (i mod spec_cols n) = grid_cell c n i"
  by (simp add: spec_cell_def spec_cell_width_def spec_cell_height_def spec_cols_eq
      spec_rows_eq grid_cell_def)

text \<open>
  Claim C2. For every panel count \<open>n \<ge> 1\<close> the grid layout uses two columns when
  \<open>n > 1\<close> and one otherwise and \<open>ceil(n / cols)\<close> rows, divides the interior width and
  height (page size minus twice the margin minus the gutters) evenly among the cells,
  and returns exactly \<open>n\<close> rectangles, the \<open>i\<close>-th being the cell at row \<open>i div cols\<close>
  and column \<open>i mod cols\<close>; the cells after the \<open>n\<close>-th get no panel.
\<close>

theorem grid_layout_reading_order:
  assumes "1 \<le> n"
  shows "grid_cols n = spec_cols n \<and> grid_rows n = spec_rows n \<and>
         (\<exists>ps. grid_layout n c = Inr ps \<and> length ps = nat n \<and>
           (\<forall>i < nat n.
              ps ! i = spec_cell c n (int i div spec_cols n) (int i mod spec_cols n)))"
proof -
  let ?ps = "map (grid_cell c n) (py_range n)"
  have "?ps ! i = spec_cell c n (int i div spec_cols n) (int i mod spec_cols n)"
    if "i < nat n" for i
    using that by (simp add: length_py_range py_range_nth spec_cell_eq)
  then show ?thesis
    using grid_layout_cells_eq [OF assms, of c]
    by (simp add: length_py_range spec_cols_eq spec_rows_eq)
qed

theorem grid_layout_reading_order_witness:
  "grid_cols 5 = 2 \<and> grid_rows 5 = 3 \<and>
   (\<exists>ps. grid_layout 5 default_config = Inr ps \<and> length ps = 5 \<and>
     ps ! 4 = \<lparr>pos_x = 50, pos_y = 1062, pos_width = 540, pos_height = 486\<rparr>)"
proof -
  have cell4: "spec_cell default_config 5 (int 4 div spec_cols 5) (int 4 mod spec_cols 5) =
      \<lparr>pos_x = 50, pos_y = 1062, pos_width = 540, pos_height = 486\<rparr>"
    by (simp add: spec_cell_def spec_cell_width_def spec_cell_height_def spec_cols_def
        spec_rows_def default_config_def)
  have dims: "spec_cols 5 = 2" "spec_rows 5 = 3"
    by (simp_all add: spec_cols_def spec_rows_def)
  have "(1::int) \<le> 5" by simp
  from grid_layout_reading_order [OF this, of default_config]
  obtain ps where ps: "grid_cols 5 = spec_cols 5" "grid_rows 5 = spec_rows 5"
    "grid_layout 5 default_config = Inr ps" "length ps = nat 5"
    "\<forall>i < nat 5. ps ! i = spec_cell default_config 5 (int i div spec_cols 5) (int i mod spec_cols 5)"
    by blast
  from ps(5) have "ps ! 4 = spec_cell default_config 5 (int 4 div spec_cols 5) (int 4 mod spec_cols 5)"
    by simp
  with ps dims cell4 show ?thesis by auto
qed

subsection \<open>The other layout policies\<close>

text \<open>
  Claim C9. For every panel count and configuration, the \<open>dynamic\<close> and \<open>traditional\<close>
  policies and every other layout style compute exactly what the grid policy computes
  (the same list of positions, or the same error).
\<close>

theorem layout_policies_equal_grid:
  "calculate_positions n layout_style c = grid_layout n c \<and>
   dynamic_layout n c = grid_layout n c \<and>
   traditional_layout n c = grid_layout n c"
  by (simp add: calculate_positions_def dynamic_layout_def traditional_layout_def)

subsection \<open>No panels\<close>

text \<open>
  Claim C10. The grid layout returns a list for every panel count \<open>n \<ge> 1\<close>. For
  \<open>n = 0\<close> the row count is \<open>0\<close> and the division for the panel height raises
  \<open>ZeroDivisionError\<close>, so the layout tool called with an empty panel list raises an
  error (this one, once the blank page is created) and never returns a page.
\<close>

theorem grid_layout_empty_raises:
  "grid_rows 0 = 0 \<and>
   grid_layout 0 c = Inl ZeroDivisionError \<and>
   (\<forall>n \<ge> 1. \<exists>ps. grid_layout n c = Inr ps) \<and>
   (new_ok img (page_width c) (page_height c) (background_color c) \<longrightarrow>
      layout_run img [] layout_style c = Inl ZeroDivisionError) \<and>
   (\<forall>page. layout_run img [] layout_style c \<noteq> Inr page)"
proof -
  have rows: "grid_rows 0 = 0" by (simp add: grid_rows_def grid_cols_def)
  have zero: "grid_layout 0 c = Inl ZeroDivisionError"
    by (simp add: grid_layout_def rows py_floordiv_def grid_cols_def Let_def)
  have total: "\<forall>n \<ge> 1. \<exists>ps. grid_layout n c = Inr ps"
    using grid_layout_cells_eq by blast
  have calc: "calculate_positions 0 layout_style c = Inl ZeroDivisionError"
    by (simp add: calculate_positions_grid zero)
  show ?thesis
    using rows zero total calc by (simp add: layout_run_def)
qed

theorem grid_layout_empty_raises_witness:
  "grid_rows 0 = 0 \<and>
   grid_layout 0 default_config = Inl ZeroDivisionError \<and>
   (\<exists>ps. grid_layout 1 default_config = Inr ps) \<and>
   layout_run all_ok [] ''grid'' default_config = Inl ZeroDivisionError"
  using grid_layout_empty_raises [of default_config all_ok "''grid''"]
  by (simp add: all_ok_def)

section \<open>Properties of page composition\<close>












section \<open>Properties of the export stage\<close>

lemma export_loop_entry:
  "export_loop fs pages output_dir title results formats f =
     (if f \<in> set formats \<and> stored (export_format fs pages output_dir title f) \<noteq> None
      then stored (export_format fs pages output_dir title f)
      else results f)"
proof (induction formats arbitrary: results)
  case Nil
  show ?case by simp
next
  case (Cons format_name rest)
  show ?case
    by (auto simp: Cons.IH stored_def split: option.splits sum.splits)
qed

text \<open>
  Claim C4, as amended. For every requested list of formats, the map that the export
  stage returns has, under each requested format name, the result of that format's
  exporter when it succeeded, whatever happened to the other formats; a format whose
  exporter failed has no entry, and neither has a name that is not requested or that no
  exporter handles.
\<close>

theorem export_all_entries:
  "export_all fs pages output_dir title formats f =
     (if f \<in> set formats then stored (export_format fs pages output_dir title f) else None)"
  by (auto simp: export_all_def export_loop_entry)

theorem export_all_entries_witness:
  "export_all pdf_fails [''p1.png''] ''out'' ''Book'' [''pdf'', ''cbz''] ''cbz'' =
     Some \<lparr>format = ''cbz'', output_path = ''out/Book.cbz'', file_size = 1, page_count = 1\<rparr> \<and>
   export_all pdf_fails [''p1.png''] ''out'' ''Book'' [''pdf'', ''cbz''] ''pdf'' = None \<and>
   export_all pdf_fails [''p1.png''] ''out'' ''Book'' [''pdf'', ''cbz''] ''web'' = None"
  using export_all_entries [of pdf_fails "[''p1.png'']" "''out''" "''Book''" "[''pdf'', ''cbz'']" "''cbz''"]
    export_all_entries [of pdf_fails "[''p1.png'']" "''out''" "''Book''" "[''pdf'', ''cbz'']" "''pdf''"]
    export_all_entries [of pdf_fails "[''p1.png'']" "''out''" "''Book''" "[''pdf'', ''cbz'']" "''web''"]
  by (simp add: stored_def export_format_def pdf_run_def cbz_run_def pdf_fails_def Let_def)

text \<open>
  Claim C4 as stated fails: when the PDF export raises and the CBZ export succeeds, the
  returned map has the CBZ result and no entry for the failed PDF format.
\<close>

theorem export_all_failed_format_counterexample:
  "export_format pdf_fails [''p1.png''] ''out'' ''Book'' ''pdf'' =
     Some (Inl (OSError ''out/Book.pdf'')) \<and>
   export_all pdf_fails [''p1.png''] ''out'' ''Book'' [''pdf'', ''cbz''] ''pdf'' = None \<and>
   export_all pdf_fails [''p1.png''] ''out'' ''Book'' [''pdf'', ''cbz''] ''cbz'' =
     Some \<lparr>format = ''cbz'', output_path = ''out/Book.cbz'', file_size = 1, page_count = 1\<rparr>"
  by (simp add: export_all_def export_format_def pdf_run_def cbz_run_def pdf_fails_def Let_def)

subsection \<open>Exporting twice\<close>

lemma pdf_run_result:
  "pdf_run fs pages path title author = Inr r \<Longrightarrow>
     format r = ''pdf'' \<and> page_count r = int (length pages)"
  by (auto simp: pdf_run_def Let_def split: if_splits)

lemma cbz_run_result:
  "cbz_run fs pages path title = Inr r \<Longrightarrow>
     format r = ''cbz'' \<and> page_count r = int (length pages)"
  by (auto simp: cbz_run_def Let_def split: if_splits)

lemma web_run_result:
  "web_run fs pages d title = Inr r \<Longrightarrow>
     format r = ''web'' \<and>
     page_count r = int (length (fst (web_process_pages fs d ([], 0) 1 pages)))"
  by (auto simp: web_run_def Let_def split: if_splits prod.splits)

text \<open>The pages a web export keeps depend only on which pages can be read and saved.\<close>

lemma web_pages_alike:
  assumes "\<forall>p \<in> set pages. page_readable fs1 p = page_readable fs2 p"
    and "\<forall>idx \<in> {k..<k + length pages}. web_page_saved fs1 d idx = web_page_saved fs2 d idx"
  shows "fst (web_process_pages fs1 d (wp, t1) k pages) =
         fst (web_process_pages fs2 d (wp, t2) k pages)"
  using assms
proof (induction pages arbitrary: wp t1 t2 k)
  case Nil
  show ?case by simp
next
  case (Cons p ps)
  have rd: "page_readable fs1 p = page_readable fs2 p" using Cons.prems(1) by simp
  have sv: "web_page_saved fs1 d k = web_page_saved fs2 d k" using Cons.prems(2) by simp
  have rest1: "\<forall>p \<in> set ps. page_readable fs1 p = page_readable fs2 p"
    using Cons.prems(1) by simp
  have rest2: "\<forall>idx \<in> {Suc k..<Suc k + length ps}.
      web_page_saved fs1 d idx = web_page_saved fs2 d idx"
    using Cons.prems(2) by simp
  show ?case
    using Cons.IH [OF rest1 rest2] rd sv by simp
qed

text \<open>
  Claim C8. For every page list and title, two exports in the same format that both
  return a result give the same format identifier and the same page count, whatever the
  two runs wrote (file sizes and contents may differ). For the PDF and the CBZ format
  this holds under any two file systems; the web format counts the pages it could
  process, so there the page set has to be the same for both runs (the same pages can
  be read and saved).
\<close>

theorem export_twice_same_fields:
  assumes "export_format fs1 pages output_dir title format_name = Some (Inr r1)"
    and "export_format fs2 pages output_dir title format_name = Some (Inr r2)"
    and "format_name = ''web'' \<longrightarrow> same_pages fs1 fs2 output_dir pages"
  shows "format r1 = format r2 \<and> page_count r1 = page_count r2"
proof -
  consider "format_name = ''pdf''" | "format_name = ''cbz''" | "format_name = ''web''"
    using assms(1) by (auto simp: export_format_def split: if_splits)
  then show ?thesis
  proof cases
    case 1
    then show ?thesis
      using assms(1,2) by (auto simp: export_format_def dest!: pdf_run_result)
  next
    case 2
    then show ?thesis
      using assms(1,2) by (auto simp: export_format_def dest!: cbz_run_result)
  next
    case 3
    have "{1..length pages} = {1..<1 + length pages}" by auto
    then have "fst (web_process_pages fs1 (output_dir @ ''/web'') ([], 0) 1 pages) =
          fst (web_process_pages fs2 (output_dir @ ''/web'') ([], 0) 1 pages)"
      using assms(3) 3 web_pages_alike [of pages fs1 fs2 1 "output_dir @ ''/web''" "[]" 0 0]
      by (simp add: same_pages_def)
    then show ?thesis
      using 3 assms(1,2) by (auto simp: export_format_def dest!: web_run_result)
  qed
qed

theorem export_twice_same_fields_witness:
  "export_format first_fs [''p1.png'', ''missing.png''] ''out'' ''Book'' ''web'' =
     Some (Inr \<lparr>format = ''web'', output_path = ''out/web/index.html'', file_size = 7,
                page_count = 1\<rparr>) \<and>
   export_format second_fs [''p1.png'', ''missing.png''] ''out'' ''Book'' ''web'' =
     Some (Inr \<lparr>format = ''web'', output_path = ''out/web/index.html'', file_size = 8,
                page_count = 1\<rparr>) \<and>
   same_pages first_fs second_fs ''out'' [''p1.png'', ''missing.png''] \<and>
   format \<lparr>format = ''web'', output_path = ''out/web/index.html'', file_size = 7,
           page_count = 1\<rparr> =
   format \<lparr>format = ''web'', output_path = ''out/web/index.html'', file_size = 8,
           page_count = 1\<rparr> \<and>
   page_count \<lparr>format = ''web'', output_path = ''out/web/index.html'', file_size = 7,
               page_count = 1\<rparr> =
   page_count \<lparr>format = ''web'', output_path = ''out/web/index.html'', file_size = 8,
               page_count = 1\<rparr>"
proof -
  have e1: "export_format first_fs [''p1.png'', ''missing.png''] ''out'' ''Book'' ''web'' =
     Some (Inr \<lparr>format = ''web'', output_path = ''out/web/index.html'', file_size = 7,
                page_count = 1\<rparr>)"
    by (simp add: export_format_def web_run_def first_fs_def Let_def)
  have e2: "export_format second_fs [''p1.png'', ''missing.png''] ''out'' ''Book'' ''web'' =
     Some (Inr \<lparr>format = ''web'', output_path = ''out/web/index.html'', file_size = 8,
                page_count = 1\<rparr>)"
    by (simp add: export_format_def web_run_def second_fs_def Let_def)
  have same: "same_pages first_fs second_fs ''out'' [''p1.png'', ''missing.png'']"
    by (simp add: same_pages_def first_fs_def second_fs_def)
  from same have h: "''web'' = ''web'' \<longrightarrow>
      same_pages first_fs second_fs ''out'' [''p1.png'', ''missing.png'']" by simp
  from export_twice_same_fields [OF e1 e2 h] e1 e2 same
  show ?thesis by simp
qed

section \<open>Properties of the image tool\<close>

text \<open>
  Claim C6, as amended. When the image service answers \<open>processing\<close>, the tool makes no
  further request: after its single request it returns at once, as the result for the
  panel, a record whose \<open>image_url\<close> is \<open>processing:\<close> followed by the identifier of the
  request. There is no polling, no backoff and no attempt ceiling, and the pending
  state is not turned into a failure.
\<close>

theorem image_run_pending_returned:
  assumes "resp_status response = Some ''processing''"
  shows "\<exists>result. image_run tool (Answers response # later) prompt width height style =
            (Inr result, later) \<and>
          image_url result = ''processing:'' @ get_default (resp_id response) ''None''"
  using assms by (simp add: image_run_def text_to_image_def Let_def)

theorem image_run_pending_returned_witness:
  "resp_status pending = Some ''processing'' \<and>
   (\<exists>result. image_run flux_tool [Answers pending, Answers finished] ''a robot'' None None None =
            (Inr result, [Answers finished]) \<and>
          image_url result = ''processing:42'')"
proof -
  have p: "resp_status pending = Some ''processing''" by (simp add: pending_def)
  have i: "get_default (resp_id pending) ''None'' = ''42''"
    by (simp add: pending_def get_default_def)
  show ?thesis
    using p i image_run_pending_returned
      [OF p, of flux_tool "[Answers finished]" "''a robot''" None None None]
    by simp
qed

text \<open>
  Claim C6 as stated fails: the service answers \<open>processing\<close> and would answer
  \<open>success\<close> at the next request; the tool returns the pending state as the result and
  the second answer is never asked for.
\<close>

theorem image_run_pending_counterexample:
  "image_run flux_tool [Answers pending, Answers finished] ''a robot'' None None None =
     (Inr \<lparr>image_url = ''processing:42'', res_prompt = ''a robot'', res_model = ''flux'',
           res_width = 1024, res_height = 1024\<rparr>,
      [Answers finished])"
  by (simp add: image_run_def text_to_image_def flux_tool_def pending_def get_default_def
      int_or_def)

text \<open>Every call of the tool makes exactly one request.\<close>

lemma image_run_one_request:
  "snd (image_run tool service prompt width height style) = tl service"
  by (simp add: image_run_def text_to_image_def Let_def
      split: list.splits api_outcome.splits option.splits)

section \<open>Properties of job tracking\<close>

text \<open>Every attribute of a comic book can be read, so its result dictionary is built.\<close>

lemma result_entry_comic_book:
  assumes "is_comic_book result"
  shows "\<exists>entry. result_entry result = Inr entry"
  using assms by (auto simp: is_comic_book_def result_entry_def getattr_def)

text \<open>
  The progress never decreases from one assignment to the next, whatever the generator
  does.
\<close>

lemma job_progress_monotone:
  "progress_monotone (job_history jid init_error generated)"
proof (cases init_error)
  case (Some e)
  then show ?thesis
    by (simp add: job_history_def generate_comic_task_def generate_comic_def)
next
  case None
  show ?thesis
  proof (cases generated)
    case (Inl e)
    with None show ?thesis
      by (simp add: job_history_def generate_comic_task_def generate_comic_def)
  next
    case (Inr result)
    with None show ?thesis
      by (cases "result_entry result")
        (simp_all add: job_history_def generate_comic_task_def generate_comic_def)
  qed
qed

text \<open>
  When the generator raises, or returns a comic book, the status follows
  \<open>queued \<rightarrow> processing \<rightarrow> {completed | failed}\<close>.
\<close>

lemma job_status_machine_comic_book:
  assumes "\<forall>result. generated = Inr result \<longrightarrow> is_comic_book result"
  shows "follows_machine (job_history jid init_error generated) \<and>
         (remdups_adj (map status (job_history jid init_error generated)) =
            [''queued'', ''processing'', ''completed''] \<or>
          remdups_adj (map status (job_history jid init_error generated)) =
            [''queued'', ''processing'', ''failed''])"
proof (cases init_error)
  case (Some e)
  then show ?thesis
    by (simp add: job_history_def generate_comic_task_def generate_comic_def status_step_def)
next
  case None
  show ?thesis
  proof (cases generated)
    case (Inl e)
    with None show ?thesis
      by (simp add: job_history_def generate_comic_task_def generate_comic_def status_step_def)
  next
    case (Inr result)
    with assms obtain entry where "result_entry result = Inr entry"
      using result_entry_comic_book by blast
    with None Inr show ?thesis
      by (simp add: job_history_def generate_comic_task_def generate_comic_def status_step_def)
  qed
qed


section \<open>Properties of the visual stage\<close>

lemma crew_kickoff_for_each_map: "crew_kickoff_for_each kickoff inputs = map kickoff inputs"
  by (induction inputs) simp_all

lemma visual_stage_map:
  "visual_stage (crew_kickoff_for_each kickoff) pydantic comic_script art_style =
     map (\<lambda>inp. pydantic (kickoff inp)) (panel_inputs comic_script art_style)"
  by (simp add: visual_stage_def crew_kickoff_for_each_map comp_def)

text \<open>
  The inputs handed to the crew library are in the order of the script's panels, one for
  each panel, with the panel's number and page.
\<close>

lemma panel_inputs_in_script_order:
  "length (panel_inputs comic_script art_style) = length (script_panels comic_script) \<and>
   map in_panel_number (panel_inputs comic_script art_style) =
     map panel_number (script_panels comic_script) \<and>
   map in_page_number (panel_inputs comic_script art_style) =
     map page_number (script_panels comic_script)"
  by (simp add: panel_inputs_def comp_def)

text \<open>
  Claim C5. For every script, the list of panel artworks that the visual stage hands on
  has one element for each panel of the script, and its \<open>i\<close>-th element is what the
  crew returned for the \<open>i\<close>-th panel of the script, whatever each run of the crew
  returns and however long it takes. So a crew whose artwork carries the number of the
  panel it was asked for gives the artworks in the order of the script's panel numbers.
\<close>

theorem visual_stage_in_script_order:
  "length (visual_stage (crew_kickoff_for_each kickoff) pydantic comic_script art_style) =
     length (script_panels comic_script) \<and>
   (\<forall>i < length (script_panels comic_script).
      visual_stage (crew_kickoff_for_each kickoff) pydantic comic_script art_style ! i =
        pydantic (kickoff (panel_inputs comic_script art_style ! i)) \<and>
      in_panel_number (panel_inputs comic_script art_style ! i) =
        panel_number (script_panels comic_script ! i)) \<and>
   ((\<forall>inp. number_of (pydantic (kickoff inp)) = in_panel_number inp) \<longrightarrow>
      map number_of
        (visual_stage (crew_kickoff_for_each kickoff) pydantic comic_script art_style) =
      map panel_number (script_panels comic_script))"
proof (intro conjI allI impI)
  show "length (visual_stage (crew_kickoff_for_each kickoff) pydantic comic_script art_style) =
      length (script_panels comic_script)"
    by (simp add: visual_stage_map panel_inputs_def)
next
  fix i
  assume i: "i < length (script_panels comic_script)"
  then have "i < length (panel_inputs comic_script art_style)"
    by (simp add: panel_inputs_def)
  then show "visual_stage (crew_kickoff_for_each kickoff) pydantic comic_script art_style ! i =
      pydantic (kickoff (panel_inputs comic_script art_style ! i))"
    by (simp add: visual_stage_map)
  show "in_panel_number (panel_inputs comic_script art_style ! i) =
      panel_number (script_panels comic_script ! i)"
    using i by (simp add: panel_inputs_def)
next
  assume echo: "\<forall>inp. number_of (pydantic (kickoff inp)) = in_panel_number inp"
  have "map number_of
      (visual_stage (crew_kickoff_for_each kickoff) pydantic comic_script art_style) =
      map in_panel_number (panel_inputs comic_script art_style)"
    using echo by (simp add: visual_stage_map comp_def)
  also have "\<dots> = map panel_number (script_panels comic_script)"
    by (simp add: panel_inputs_def comp_def)
  finally show "map number_of
      (visual_stage (crew_kickoff_for_each kickoff) pydantic comic_script art_style) =
      map panel_number (script_panels comic_script)" .
qed

theorem visual_stage_in_script_order_witness:
  "length (visual_stage (crew_kickoff_for_each echo_crew) (\<lambda>r. r) three_panels ''cartoon'') = 3 \<and>
   visual_stage (crew_kickoff_for_each echo_crew) (\<lambda>r. r) three_panels ''cartoon'' ! 2 =
     (3, ''https://img/a flower'') \<and>
   map fst (visual_stage (crew_kickoff_for_each echo_crew) (\<lambda>r. r) three_panels ''cartoon'') =
     [1, 2, 3]"
proof -
  have len: "length (script_panels three_panels) = 3" by (simp add: three_panels_def)
  have echo: "\<forall>inp. fst ((\<lambda>r. r) (echo_crew inp)) = in_panel_number inp"
    by (simp add: echo_crew_def)
  have third: "(\<lambda>r. r) (echo_crew (panel_inputs three_panels ''cartoon'' ! 2)) =
      (3, ''https://img/a flower'')"
    by (simp add: echo_crew_def panel_inputs_def three_panels_def)
  have nums: "map panel_number (script_panels three_panels) = [1, 2, 3]"
    by (simp add: three_panels_def)
  from visual_stage_in_script_order
    [of echo_crew "\<lambda>r. r" three_panels "''cartoon''" fst]
  show ?thesis using len echo third nums by simp
qed

end
